theory Spec2Isabelle
  imports Complex_Main "HOL-Library.Char_ord" "HOL-Library.List_Lexorder"
begin

section \<open>JavaScript values\<close>

text \<open>
  The client is TypeScript running on a JavaScript engine. The values it handles are those
  that JSON delivers: a reply of the gateway and a webhook body are parsed JSON, and the
  field types the sources declare are erased at run time, so a field holds whatever the
  JSON text carried. A number is an IEEE double; the model keeps the finite ones as
  rationals (a superset) and the three special values apart. Strings are
  \<^typ>\<open>string\<close>; the order on them is the ordinal one (character codes, a proper
  prefix first), which is what \<^verbatim>\<open>Array.prototype.sort()\<close> without a comparator uses.

  An object and an array are references: the address says which object it is, so that
  the same object and a copy of it are different values, and equality of values is the
  strict equality \<^verbatim>\<open>===\<close> of the language wherever the code uses it (on strings, null
  and undefined).
\<close>

datatype jsnum = Finite rat | NaN | PosInfinity | NegInfinity

type_synonym addr = nat

datatype jsval =
    JUndefined
  | JNull
  | JBool bool
  | JNum jsnum
  | JStr string
  | JArr addr "jsval list"
  | JObj addr "(string \<times> jsval) list"

text \<open>
  The own enumerable properties of an object, in the order \<^verbatim>\<open>Object.keys\<close> lists
  them.
\<close>

type_synonym object = "(string \<times> jsval) list"

text \<open>ToBoolean: what \<^verbatim>\<open>!x\<close>, \<^verbatim>\<open>x || y\<close> and \<^verbatim>\<open>if (x)\<close> test.\<close>

fun truthy :: "jsval \<Rightarrow> bool" where
  "truthy JUndefined = False"
| "truthy JNull = False"
| "truthy (JBool b) = b"
| "truthy (JNum n) = (n \<noteq> NaN \<and> n \<noteq> Finite 0)"
| "truthy (JStr s) = (s \<noteq> [])"
| "truthy (JArr a xs) = True"
| "truthy (JObj a ps) = True"

text \<open>\<^verbatim>\<open>Array.prototype.join(sep)\<close> on a list of strings.\<close>

fun join :: "string \<Rightarrow> string list \<Rightarrow> string" where
  "join sep [] = []"
| "join sep [x] = x"
| "join sep (x # y # ys) = x @ sep @ join sep (y # ys)"

text \<open>
  ToString, as a template literal \<^verbatim>\<open>`${x}`\<close>, \<^verbatim>\<open>String(x)\<close> and \<^verbatim>\<open>new Error(x)\<close>
  apply it; \<open>None\<close> is the TypeError the conversion throws. The rendering of a number is
  the engine's (\<^verbatim>\<open>Number::toString\<close>) and is a parameter. An array renders as its
  elements joined by a comma, null and undefined as the empty string. An object is
  converted by its \<^verbatim>\<open>toString\<close> method: a parsed object without an own property of
  that name inherits the one of \<^verbatim>\<open>Object.prototype\<close> and renders as
  \<^verbatim>\<open>[object Object]\<close>; an own property \<^verbatim>\<open>toString\<close> of a parsed object holds a JSON
  value, which is not callable, the inherited \<^verbatim>\<open>valueOf\<close> returns the object itself,
  and the conversion throws.
\<close>

fun ToString :: "(jsnum \<Rightarrow> string) \<Rightarrow> jsval \<Rightarrow> string option" where
  "ToString n2s JUndefined = Some ''undefined''"
| "ToString n2s JNull = Some ''null''"
| "ToString n2s (JBool b) = Some (if b then ''true'' else ''false'')"
| "ToString n2s (JNum n) = Some (n2s n)"
| "ToString n2s (JStr s) = Some s"
| "ToString n2s (JArr a xs) =
     map_option (join '','')
       (those (map (\<lambda>x. if x = JNull \<or> x = JUndefined then Some [] else ToString n2s x) xs))"
| "ToString n2s (JObj a ps) =
     (if ''toString'' \<in> set (map fst ps) then None else Some ''[object Object]'')"

subsection \<open>Property keys and their order\<close>

text \<open>
  The decimal numeral of a natural number: the key of an array element, and the way a
  small non-negative integer prints.
\<close>

definition digit_char :: "nat \<Rightarrow> char" where
  "digit_char d = ''0123456789'' ! d"

fun decimal :: "nat \<Rightarrow> string" where
  "decimal n = (if n < 10 then [digit_char n] else decimal (n div 10) @ [digit_char (n mod 10)])"

declare decimal.simps [simp del]

definition is_digit :: "char \<Rightarrow> bool" where
  "is_digit c = (CHR ''0'' \<le> c \<and> c \<le> CHR ''9'')"

definition decimal_value :: "string \<Rightarrow> nat" where
  "decimal_value s = foldl (\<lambda>n c. 10 * n + (of_char c - 48)) 0 s"

text \<open>
  An array index is a canonical numeric string (digits only, no leading zero) with a
  value below \<open>2^32 - 1\<close>. The own keys of an object are ordered as ECMAScript's
  OrdinaryOwnPropertyKeys orders them, and \<^verbatim>\<open>Object.keys\<close> lists them so: the array
  indices first, in ascending numeric order, whatever the order they were created in; the
  other string keys after them, in creation order.
\<close>

definition is_array_index :: "string \<Rightarrow> bool" where
  "is_array_index s =
     (s \<noteq> [] \<and> list_all is_digit s \<and> (if hd s = CHR ''0'' then s = ''0'' else True)
      \<and> decimal_value s < 4294967295)"

definition keys :: "object \<Rightarrow> string list" where
  "keys object = map fst object"

text \<open>
  \<^verbatim>\<open>object[key]\<close> and \<^verbatim>\<open>object.key\<close> on the properties of a plain object: the own
  property, or undefined. (The names read by this code are not properties of
  \<^verbatim>\<open>Object.prototype\<close>.)
\<close>

definition get :: "object \<Rightarrow> string \<Rightarrow> jsval" where
  "get object key = (case map_of object key of None \<Rightarrow> JUndefined | Some v \<Rightarrow> v)"

fun replace_prop :: "string \<Rightarrow> jsval \<Rightarrow> object \<Rightarrow> object" where
  "replace_prop k v [] = []"
| "replace_prop k v (p # ps) = (if fst p = k then (k, v) # ps else p # replace_prop k v ps)"

fun insert_prop :: "string \<Rightarrow> jsval \<Rightarrow> object \<Rightarrow> object" where
  "insert_prop k v [] = [(k, v)]"
| "insert_prop k v (p # ps) =
     (if is_array_index k \<and>
         (if is_array_index (fst p) then decimal_value k < decimal_value (fst p) else True)
      then (k, v) # p # ps
      else p # insert_prop k v ps)"

text \<open>
  Creating or overwriting an own data property (what an object literal and a spread do):
  an existing key keeps its place, a new array index goes to its numeric place among the
  indices, any other new key goes last.
\<close>

definition define_prop :: "string \<Rightarrow> jsval \<Rightarrow> object \<Rightarrow> object" where
  "define_prop k v object =
     (if k \<in> set (keys object) then replace_prop k v object else insert_prop k v object)"

text \<open>
  The assignment \<^verbatim>\<open>acc[key] = v\<close>. It differs from \<open>define_prop\<close> at one key: on an
  object without an own \<^verbatim>\<open>__proto__\<close> property the assignment runs the inherited
  \<^verbatim>\<open>__proto__\<close> setter, which creates no own property.
\<close>

definition assign_prop :: "object \<Rightarrow> string \<Rightarrow> jsval \<Rightarrow> object" where
  "assign_prop acc key v =
     (if key = ''__proto__'' \<and> key \<notin> set (keys acc) then acc else define_prop key v acc)"

text \<open>
  The own enumerable string-keyed properties of a value used as an object (by
  \<^verbatim>\<open>Object.keys\<close>, by a member access, by a spread): those of an object, the elements
  of an array and the characters of a string under their indices, none for a number or a
  boolean.
\<close>

fun own_properties :: "jsval \<Rightarrow> object" where
  "own_properties (JObj a ps) = ps"
| "own_properties (JArr a xs) = zip (map decimal [0..<length xs]) xs"
| "own_properties (JStr s) = zip (map decimal [0..<length s]) (map (\<lambda>c. JStr [c]) s)"
| "own_properties v = []"

section \<open>Errors and results (error.ts, constants.ts)\<close>

definition ERROR_MESSAGE_NO_SIGNATURE :: string where
  "ERROR_MESSAGE_NO_SIGNATURE = ''No signature.''"

definition ERROR_MESSAGE_NO_DATA :: string where
  "ERROR_MESSAGE_NO_DATA = ''No data.''"

definition ERROR_MESSAGE_INVALID_SIGNATURE :: string where
  "ERROR_MESSAGE_INVALID_SIGNATURE = ''Invalid signature.''"

definition ERROR_MESSAGE_DATA_NOT_INTEGRITY :: string where
  "ERROR_MESSAGE_DATA_NOT_INTEGRITY =
     ''The data is unreliable because the signature of the response does not match the signature of the data.''"

definition ERROR_MESSAGE_WEBHOOK_URL_INVALID :: string where
  "ERROR_MESSAGE_WEBHOOK_URL_INVALID = ''Webhook URL invalid.''"

definition ERROR_MESSAGE_UNAUTHORIZED :: string where
  "ERROR_MESSAGE_UNAUTHORIZED = ''Unauthorized.''"

definition ERROR_MESSAGE_INTERNAL_SERVER_ERROR :: string where
  "ERROR_MESSAGE_INTERNAL_SERVER_ERROR = ''Internal Server Error.''"

definition ERROR_MESSAGE_INVALID_PARAMETER :: string where
  "ERROR_MESSAGE_INVALID_PARAMETER = ''Invalid Parameter.''"

definition ERROR_CODE_INTERNAL_SERVER_ERROR :: string where
  "ERROR_CODE_INTERNAL_SERVER_ERROR = ''20''"

definition ERROR_CODE_UNAUTHORIZED :: string where
  "ERROR_CODE_UNAUTHORIZED = ''401''"

definition PAYOS_API_URL :: string where
  "PAYOS_API_URL = ''https://api-merchant.payos.vn''"

text \<open>
  What a \<^verbatim>\<open>throw\<close> or a rejected promise carries: \<open>Error m\<close> is \<^verbatim>\<open>new Error(m)\<close>;
  \<open>PayOSError c m\<close> is the \<^verbatim>\<open>PayOSError\<close> of error.ts, an \<^verbatim>\<open>Error\<close> with message
  \<open>m\<close> and the extra field \<^verbatim>\<open>code\<close> holding \<open>c\<close>; \<open>NativeError n m\<close> is an error
  object of the engine with name \<open>n\<close> and message \<open>m\<close> (a \<^verbatim>\<open>TypeError\<close>, the
  \<^verbatim>\<open>SyntaxError\<close> of a body that is not JSON); \<open>Thrown v\<close> is any other value.
\<close>

datatype js_error =
    Error string
  | PayOSError jsval string
  | NativeError string string
  | Thrown jsval

text \<open>
  The result of a call: a returned value or a raised error. For an \<^verbatim>\<open>async\<close> function
  these are the fulfilled and the rejected promise.
\<close>

datatype 'a outcome = Return 'a | Throw js_error

text \<open>
  \<open>then_do x rest\<close>: evaluate \<open>x\<close> and go on with its value; what \<open>x\<close> raises is raised.
  \<^verbatim>\<open>const v = await p; rest(v)\<close> is the same on the outcome of the promise.
\<close>

definition then_do :: "'a outcome \<Rightarrow> ('a \<Rightarrow> 'b outcome) \<Rightarrow> 'b outcome" where
  "then_do x rest = (case x of Return v \<Rightarrow> rest v | Throw error \<Rightarrow> Throw error)"

definition await :: "'a outcome \<Rightarrow> ('a \<Rightarrow> 'b outcome) \<Rightarrow> 'b outcome" where
  "await p rest = then_do p rest"

text \<open>\<^verbatim>\<open>try { block } catch (error) { handler(error) }\<close>.\<close>

definition try_catch :: "'a outcome \<Rightarrow> (js_error \<Rightarrow> 'a outcome) \<Rightarrow> 'a outcome" where
  "try_catch block handler = (case block of Return x \<Rightarrow> Return x | Throw error \<Rightarrow> handler error)"

text \<open>
  The primitives the engine supplies: HMAC-SHA256 with a key over a message, as a hex
  digest (\<^verbatim>\<open>crypto.createHmac('sha256', key).update(msg).digest('hex')\<close>), the rendering
  of a number, the message text of the TypeError it throws when a value cannot be
  converted to a primitive, and the message text of the TypeError it throws when a
  property of null or undefined is read or destructured, which depends on the expression
  evaluated.
\<close>

record builtins =
  hmac_sha256_hex :: "string \<Rightarrow> string \<Rightarrow> string"
  number_toString :: "jsnum \<Rightarrow> string"
  typeError_message :: string
  nullish_read_message :: "string \<Rightarrow> string"

definition TypeError :: "builtins \<Rightarrow> js_error" where
  "TypeError B = NativeError ''TypeError'' (typeError_message B)"

definition NullishReadError :: "builtins \<Rightarrow> string \<Rightarrow> js_error" where
  "NullishReadError B expression = NativeError ''TypeError'' (nullish_read_message B expression)"

text \<open>A template literal part \<^verbatim>\<open>${x}\<close>, as a result: the string, or the TypeError.\<close>

definition to_string :: "builtins \<Rightarrow> jsval \<Rightarrow> string outcome" where
  "to_string B x = (case ToString (number_toString B) x of None \<Rightarrow> Throw (TypeError B) | Some s \<Rightarrow> Return s)"

section \<open>The canonical encoder (utils/sortObjectByKey.ts, utils/objectToQueryString.ts)\<close>

text \<open>
  sortObjectByKey builds a new object; the model gives its properties. Its argument is an
  object by its declared type.
\<close>

definition sortObjectByKey :: "object \<Rightarrow> object" where
  "sortObjectByKey object =
     foldl (\<lambda>acc key. assign_prop acc key (get object key)) [] (sort (keys object))"

text \<open>
  \<^verbatim>\<open>Object.keys(object).map((key) => `${key}=${object[key]}`).join('&')\<close>: the callback
  throws where a value has no string conversion, and the map with it.
\<close>

definition objectToQueryString :: "builtins \<Rightarrow> object \<Rightarrow> string outcome" where
  "objectToQueryString B object =
     (case those (map (\<lambda>key. map_option (\<lambda>s. key @ ''='' @ s)
                             (ToString (number_toString B) (get object key)))
                   (keys object)) of
        None \<Rightarrow> Throw (TypeError B)
      | Some pairs \<Rightarrow> Return (join ''&'' pairs))"

section \<open>The signer (utils/createSignature.ts)\<close>

text \<open>Both signers return a digest or null (\<open>None\<close>), or raise what the encoding raises.\<close>

definition createSignatureFromObject :: "builtins \<Rightarrow> jsval \<Rightarrow> string \<Rightarrow> string option outcome" where
  "createSignatureFromObject B data key =
     (if \<not> truthy data \<or> length key = 0 then Return None
      else
        let sortedData = sortObjectByKey (own_properties data) in
        then_do (objectToQueryString B sortedData) (\<lambda>queryString.
        let dataToSignature = hmac_sha256_hex B key queryString
        in Return (Some dataToSignature)))"

definition createSignatureOfPaymentRequest :: "builtins \<Rightarrow> jsval \<Rightarrow> string \<Rightarrow> string option outcome" where
  "createSignatureOfPaymentRequest B data key =
     (if \<not> truthy data \<or> length key = 0 then Return None
      else
        let props = own_properties data;
            amount = get props ''amount'';
            cancelUrl = get props ''cancelUrl'';
            description = get props ''description'';
            orderCode = get props ''orderCode'';
            returnUrl = get props ''returnUrl''
        in
        then_do (to_string B amount) (\<lambda>amount_s.
        then_do (to_string B cancelUrl) (\<lambda>cancelUrl_s.
        then_do (to_string B description) (\<lambda>description_s.
        then_do (to_string B orderCode) (\<lambda>orderCode_s.
        then_do (to_string B returnUrl) (\<lambda>returnUrl_s.
        let queryString =
              ''amount='' @ amount_s @ ''&cancelUrl='' @ cancelUrl_s @
              ''&description='' @ description_s @ ''&orderCode='' @ orderCode_s @
              ''&returnUrl='' @ returnUrl_s;
            dataToSignature = hmac_sha256_hex B key queryString
        in Return (Some dataToSignature)))))))"

section \<open>The gateway client (index.ts)\<close>

record PayOS =
  clientId :: string
  apiKey :: string
  checksumKey :: string

text \<open>
  A call of \<^verbatim>\<open>fetch(url, {method, body, headers})\<close>. The body holds the properties of the
  object literal handed to \<^verbatim>\<open>JSON.stringify\<close>; \<open>None\<close> is no body.
\<close>

record request =
  url :: string
  "method" :: string
  body :: "object option"
  headers :: "(string \<times> string) list"

text \<open>
  The response \<^verbatim>\<open>fetch\<close> resolves to: its HTTP status and what \<^verbatim>\<open>response.json()\<close>
  gives, the parsed body (any JSON value) or a rejection. \<^verbatim>\<open>fetch\<close> resolves for every
  HTTP response, whatever its status; it rejects only when no response arrives.
\<close>

record response =
  status :: nat
  json :: "jsval outcome"

text \<open>A digest-or-null as a JavaScript value.\<close>

definition nullable :: "string option \<Rightarrow> jsval" where
  "nullable x = (case x of None \<Rightarrow> JNull | Some s \<Rightarrow> JStr s)"

text \<open>
  \<^verbatim>\<open>v?.name\<close>, and \<^verbatim>\<open>v.name\<close> where \<open>v\<close> is neither null nor undefined, for the names
  this code reads (\<^verbatim>\<open>code\<close>, \<^verbatim>\<open>desc\<close>, \<^verbatim>\<open>data\<close>, \<^verbatim>\<open>signature\<close>, the five
  required fields, \<^verbatim>\<open>response\<close>, \<^verbatim>\<open>message\<close>, \<^verbatim>\<open>status\<close>): the own property, or
  undefined. Reading a property of null or undefined without \<^verbatim>\<open>?.\<close> throws a
  TypeError; that is written out where the code does it.
\<close>

definition read_prop :: "jsval \<Rightarrow> string \<Rightarrow> jsval" where
  "read_prop v name = get (own_properties v) name"

definition nullish :: "jsval \<Rightarrow> bool" where
  "nullish v = (v = JNull \<or> v = JUndefined)"

text \<open>
  \<^verbatim>\<open>new Error(x)\<close>: the message is the string conversion of \<open>x\<close>, empty for undefined;
  the conversion may throw. \<^verbatim>\<open>new PayOSError({code, message})\<close> passes the message to
  the constructor of \<^verbatim>\<open>Error\<close> and stores the code as it is.
\<close>

definition new_Error :: "builtins \<Rightarrow> jsval \<Rightarrow> js_error outcome" where
  "new_Error B x =
     (if x = JUndefined then Return (Error [])
      else then_do (to_string B x) (\<lambda>m. Return (Error m)))"

definition new_PayOSError :: "builtins \<Rightarrow> jsval \<Rightarrow> jsval \<Rightarrow> js_error outcome" where
  "new_PayOSError B c message =
     (if message = JUndefined then Return (PayOSError c [])
      else then_do (to_string B message) (\<lambda>m. Return (PayOSError c m)))"

text \<open>
  \<^verbatim>\<open>(error as any)?.response?.data || (error as any)?.response || error\<close>. An error
  object made by this code or by the engine has no \<^verbatim>\<open>response\<close>.
\<close>

definition errorData_of :: "js_error \<Rightarrow> js_error" where
  "errorData_of error =
     (case error of
        Thrown v \<Rightarrow>
          if truthy (read_prop (read_prop v ''response'') ''data'')
          then Thrown (read_prop (read_prop v ''response'') ''data'')
          else if truthy (read_prop v ''response'') then Thrown (read_prop v ''response'')
          else error
      | _ \<Rightarrow> error)"

text \<open>
  \<^verbatim>\<open>throw new Error(errorData?.message || errorData)\<close>. When the message is falsy the
  error itself is converted to a string: an error object with an empty message prints as
  its name.
\<close>

definition throw_new_Error_from :: "builtins \<Rightarrow> js_error \<Rightarrow> 'a outcome" where
  "throw_new_Error_from B errorData =
     (case errorData of
        Error m \<Rightarrow> Throw (Error (if m \<noteq> [] then m else ''Error''))
      | PayOSError c m \<Rightarrow> Throw (Error (if m \<noteq> [] then m else ''Error''))
      | NativeError n m \<Rightarrow> Throw (Error (if m \<noteq> [] then m else n))
      | Thrown v \<Rightarrow>
          then_do (new_Error B (if truthy (read_prop v ''message'') then read_prop v ''message'' else v))
            Throw)"

text \<open>The catch clause of createPaymentLink, getPaymentLinkInformation and cancelPaymentLink.\<close>

definition catch_generic :: "builtins \<Rightarrow> js_error \<Rightarrow> 'a outcome" where
  "catch_generic B error = (let errorData = errorData_of error in throw_new_Error_from B errorData)"

text \<open>
  \<^verbatim>\<open>x == "00"\<close>, the loose equality that getPaymentLinkInformation and cancelPaymentLink
  apply to the code of a reply: a string is compared as it is; a number with the numeric
  value of \<^verbatim>\<open>"00"\<close>, which is 0; a boolean as the number 0 or 1; null and undefined
  are unequal to every string; an object or an array is converted to a string first,
  which may throw. createPaymentLink uses the strict \<^verbatim>\<open>=== "00"\<close>, which only the
  string \<^verbatim>\<open>00\<close> passes.
\<close>

fun loose_equals_00 :: "(jsnum \<Rightarrow> string) \<Rightarrow> jsval \<Rightarrow> bool option" where
  "loose_equals_00 n2s (JStr s) = Some (s = ''00'')"
| "loose_equals_00 n2s (JNum n) = Some (n = Finite 0)"
| "loose_equals_00 n2s (JBool b) = Some (\<not> b)"
| "loose_equals_00 n2s JNull = Some False"
| "loose_equals_00 n2s JUndefined = Some False"
| "loose_equals_00 n2s v = map_option (\<lambda>s. s = ''00'') (ToString n2s v)"

definition is_loosely_00 :: "builtins \<Rightarrow> jsval \<Rightarrow> bool outcome" where
  "is_loosely_00 B x =
     (case loose_equals_00 (number_toString B) x of None \<Rightarrow> Throw (TypeError B) | Some b \<Rightarrow> Return b)"

text \<open>
  The tests of the \<^verbatim>\<open>orderId\<close> validation: \<^verbatim>\<open>typeof\<close>, \<^verbatim>\<open>Number.isInteger\<close> (false
  for every value that is not an integral finite number) and \<^verbatim>\<open>x <= 0\<close>, which the
  code evaluates on numbers only (a comparison with NaN is false).
\<close>

fun typeof :: "jsval \<Rightarrow> string" where
  "typeof JUndefined = ''undefined''"
| "typeof JNull = ''object''"
| "typeof (JBool b) = ''boolean''"
| "typeof (JNum n) = ''number''"
| "typeof (JStr s) = ''string''"
| "typeof (JArr a xs) = ''object''"
| "typeof (JObj a ps) = ''object''"

fun Number_isInteger :: "jsval \<Rightarrow> bool" where
  "Number_isInteger (JNum (Finite q)) = (of_int \<lfloor>q\<rfloor> = q)"
| "Number_isInteger v = False"

fun le_zero :: "jsval \<Rightarrow> bool" where
  "le_zero (JNum (Finite q)) = (q \<le> 0)"
| "le_zero (JNum NegInfinity) = True"
| "le_zero v = False"

text \<open>\<^verbatim>\<open>x.length\<close> of a string.\<close>

fun string_length :: "jsval \<Rightarrow> nat" where
  "string_length (JStr s) = length s"
| "string_length v = 0"

text \<open>
  createPaymentLink. The test of the required fields and the signing of the request stand
  before the \<^verbatim>\<open>try\<close>: what they raise reaches the caller as it is. The reply is
  destructured inside the \<^verbatim>\<open>try\<close>; destructuring null or undefined throws a TypeError.
\<close>

definition createPaymentLink ::
  "builtins \<Rightarrow> (request \<Rightarrow> response outcome) \<Rightarrow> PayOS \<Rightarrow> jsval \<Rightarrow> jsval outcome" where
  "createPaymentLink B fetch this paymentData =
     (if \<not> truthy paymentData \<or> \<not> truthy (read_prop paymentData ''amount'')
         \<or> \<not> truthy (read_prop paymentData ''cancelUrl'')
         \<or> \<not> truthy (read_prop paymentData ''description'')
         \<or> \<not> truthy (read_prop paymentData ''orderCode'')
         \<or> \<not> truthy (read_prop paymentData ''returnUrl'')
      then
        let requiredFields = [''amount'', ''cancelUrl'', ''description'', ''orderCode'', ''returnUrl'']
        in if nullish paymentData then Throw (NullishReadError B ''paymentData[key]'')
           else
             let keysError = filter (\<lambda>key. \<not> truthy (read_prop paymentData key)) requiredFields
             in Throw (Error (''The following fields are required: '' @ join '', '' keysError))
      else
        let url = PAYOS_API_URL @ ''/v2/payment-requests'' in
        then_do (createSignatureOfPaymentRequest B paymentData (checksumKey this)) (\<lambda>signature.
        try_catch
          (await (fetch \<lparr>url = url, method = ''POST'',
                         body = Some (define_prop ''signature'' (nullable signature)
                                        (own_properties paymentData)),
                         headers = [(''content-type'', ''application/json''),
                                    (''X-client-id'', clientId this),
                                    (''X-api-key'', apiKey this)]\<rparr>)
             (\<lambda>response. await (json response)
                (\<lambda>r. if nullish r then Throw (NullishReadError B ''await response.json()'')
                   else
                     let code = read_prop r ''code''; data = read_prop r ''data'';
                         resSignature = read_prop r ''signature''; desc = read_prop r ''desc''
                     in
                     if code = JStr ''00'' then
                       then_do (createSignatureFromObject B data (checksumKey this))
                         (\<lambda>paymentLinkResSignature.
                            if nullable paymentLinkResSignature \<noteq> resSignature
                            then Throw (Error ERROR_MESSAGE_DATA_NOT_INTEGRITY)
                            else if truthy data then Return data
                            else then_do (new_PayOSError B code desc) Throw)
                     else then_do (new_PayOSError B code desc) Throw)))
          (catch_generic B)))"

definition getPaymentLinkInformation ::
  "builtins \<Rightarrow> (request \<Rightarrow> response outcome) \<Rightarrow> PayOS \<Rightarrow> jsval \<Rightarrow> jsval outcome" where
  "getPaymentLinkInformation B fetch this orderId =
     (if \<not> truthy orderId
         \<or> (typeof orderId = ''number'' \<and> (\<not> Number_isInteger orderId \<or> le_zero orderId))
         \<or> (typeof orderId = ''string'' \<and> string_length orderId = 0)
      then Throw (Error ERROR_MESSAGE_INVALID_PARAMETER)
      else
        then_do (to_string B orderId) (\<lambda>orderId_s.
        let url = PAYOS_API_URL @ ''/v2/payment-requests/'' @ orderId_s in
        try_catch
          (await (fetch \<lparr>url = url, method = ''GET'', body = None,
                         headers = [(''x-client-id'', clientId this),
                                    (''x-api-key'', apiKey this),
                                    (''Content-Type'', ''application/json'')]\<rparr>)
             (\<lambda>response. await (json response)
                (\<lambda>r. if nullish r then Throw (NullishReadError B ''await response.json()'')
                   else
                     let code = read_prop r ''code''; data = read_prop r ''data'';
                         signature = read_prop r ''signature''; desc = read_prop r ''desc''
                     in
                     then_do (is_loosely_00 B code) (\<lambda>code_is_00.
                     if code_is_00 then
                       then_do (createSignatureFromObject B data (checksumKey this))
                         (\<lambda>paymentLinkInfoResSignature.
                            if nullable paymentLinkInfoResSignature \<noteq> signature
                            then Throw (Error ERROR_MESSAGE_DATA_NOT_INTEGRITY)
                            else if truthy data then Return data
                            else then_do (new_PayOSError B code desc) Throw)
                     else then_do (new_PayOSError B code desc) Throw))))
          (catch_generic B)))"

text \<open>\<^verbatim>\<open>String(x).startsWith('5')\<close>, on the string.\<close>

definition startsWith_5 :: "string \<Rightarrow> bool" where
  "startsWith_5 s = (take 1 s = ''5'')"

text \<open>
  The \<^verbatim>\<open>status\<close> read off \<^verbatim>\<open>errorData\<close>: an error object made by this code or by the
  engine has none.
\<close>

definition status_of :: "js_error \<Rightarrow> jsval" where
  "status_of errorData = (case errorData of Thrown v \<Rightarrow> read_prop v ''status'' | _ \<Rightarrow> JUndefined)"

definition confirmWebhook ::
  "builtins \<Rightarrow> (request \<Rightarrow> response outcome) \<Rightarrow> PayOS \<Rightarrow> string \<Rightarrow> string outcome" where
  "confirmWebhook B fetch this webhookUrl =
     (if \<not> truthy (JStr webhookUrl) \<or> length webhookUrl = 0
      then Throw (Error ERROR_MESSAGE_INVALID_PARAMETER)
      else
        let url = PAYOS_API_URL @ ''/confirm-webhook''
        in try_catch
             (await (fetch \<lparr>url = url, method = ''POST'',
                            body = Some [(''webhookUrl'', JStr webhookUrl)],
                            headers = [(''x-client-id'', clientId this),
                                       (''x-api-key'', apiKey this),
                                       (''Content-Type'', ''application/json'')]\<rparr>)
                (\<lambda>response. Return webhookUrl))
             (\<lambda>error.
                let errorData = errorData_of error in
                if status_of errorData = JNum (Finite 400) then
                  Throw (PayOSError (JStr ERROR_CODE_INTERNAL_SERVER_ERROR) ERROR_MESSAGE_WEBHOOK_URL_INVALID)
                else if status_of errorData = JNum (Finite 401) then
                  Throw (PayOSError (JStr ERROR_CODE_UNAUTHORIZED) ERROR_MESSAGE_UNAUTHORIZED)
                else
                  then_do (to_string B (status_of errorData)) (\<lambda>status_s.
                  if startsWith_5 status_s then
                    Throw (PayOSError (JStr ERROR_CODE_INTERNAL_SERVER_ERROR)
                             ERROR_MESSAGE_INTERNAL_SERVER_ERROR)
                  else throw_new_Error_from B errorData)))"

text \<open>The optional \<^verbatim>\<open>cancellationReason\<close> is a string or undefined (\<open>None\<close>).\<close>

definition cancelPaymentLink ::
  "builtins \<Rightarrow> (request \<Rightarrow> response outcome) \<Rightarrow> PayOS \<Rightarrow> jsval \<Rightarrow> string option \<Rightarrow> jsval outcome" where
  "cancelPaymentLink B fetch this orderId cancellationReason =
     (if \<not> truthy orderId
         \<or> (typeof orderId = ''number'' \<and> (\<not> Number_isInteger orderId \<or> le_zero orderId))
         \<or> (typeof orderId = ''string'' \<and> string_length orderId = 0)
      then Throw (Error ERROR_MESSAGE_INVALID_PARAMETER)
      else
        then_do (to_string B orderId) (\<lambda>orderId_s.
        let url = PAYOS_API_URL @ ''/v2/payment-requests/'' @ orderId_s @ ''/cancel'' in
        try_catch
          (await (fetch \<lparr>url = url, method = ''POST'',
                         body = (case cancellationReason of
                                   None \<Rightarrow> None
                                 | Some reason \<Rightarrow>
                                     if truthy (JStr reason)
                                     then Some [(''cancellationReason'', JStr reason)] else None),
                         headers = [(''x-client-id'', clientId this),
                                    (''x-api-key'', apiKey this),
                                    (''Content-Type'', ''application/json'')]\<rparr>)
             (\<lambda>response. await (json response)
                (\<lambda>r. if nullish r then Throw (NullishReadError B ''await response.json()'')
                   else
                     let code = read_prop r ''code''; data = read_prop r ''data'';
                         signature = read_prop r ''signature''; desc = read_prop r ''desc''
                     in
                     then_do (is_loosely_00 B code) (\<lambda>code_is_00.
                     if code_is_00 then
                       then_do (createSignatureFromObject B data (checksumKey this))
                         (\<lambda>paymentLinkInfoResSignature.
                            if nullable paymentLinkInfoResSignature \<noteq> signature
                            then Throw (Error ERROR_MESSAGE_DATA_NOT_INTEGRITY)
                            else if truthy data then Return data
                            else then_do (new_PayOSError B code desc) Throw)
                     else then_do (new_PayOSError B code desc) Throw))))
          (catch_generic B)))"

text \<open>
  verifyWebhookData is synchronous and uses no transport; nothing catches what it raises.
  It returns \<^verbatim>\<open>data\<close>, the value it read from the body: for an object, that object
  itself (the same address), not the object rebuilt for signing.
\<close>

definition verifyWebhookData :: "builtins \<Rightarrow> PayOS \<Rightarrow> jsval \<Rightarrow> jsval outcome" where
  "verifyWebhookData B this webhookBody =
     (if nullish webhookBody then Throw (NullishReadError B ''webhookBody.data'')
      else
        let data = read_prop webhookBody ''data''; signature = read_prop webhookBody ''signature'' in
        if \<not> truthy data then Throw (Error ERROR_MESSAGE_NO_DATA)
        else
          then_do (createSignatureFromObject B data (checksumKey this)) (\<lambda>signData.
          if nullable signData \<noteq> signature then Throw (Error ERROR_MESSAGE_DATA_NOT_INTEGRITY)
          else Return data))"

section \<open>Auxiliary notions for the statements\<close>

text \<open>
  A plain key: neither an array index nor \<^verbatim>\<open>__proto__\<close>. The field names of the
  gateway's payloads are plain keys.
\<close>

definition plain_key :: "string \<Rightarrow> bool" where
  "plain_key k = (\<not> is_array_index k \<and> k \<noteq> ''__proto__'')"

text \<open>
  The values whose conversion to a string succeeds: every value but an object that has an
  own \<^verbatim>\<open>toString\<close> property, and an array that holds such an object (a lemma below
  shows that \<open>ToString\<close> succeeds exactly on them).
\<close>

fun convertible :: "jsval \<Rightarrow> bool" where
  "convertible (JObj a ps) = (''toString'' \<notin> set (map fst ps))"
| "convertible (JArr a xs) = list_all convertible xs"
| "convertible v = True"

text \<open>
  A payload of which createSignatureFromObject can build the canonical string: every value
  of the sorted copy is convertible.
\<close>

definition signable :: "jsval \<Rightarrow> bool" where
  "signable d =
     (let sortedData = sortObjectByKey (own_properties d)
      in list_all (\<lambda>key. convertible (get sortedData key)) (keys sortedData))"

text \<open>
  A concrete instance of the engine's primitives, for evaluating the model on examples: the
  digest is replaced by a transparent stand-in that shows the key and the message, and a
  number prints as the decimal numeral of its integral part.
\<close>

definition demo_builtins :: builtins where
  "demo_builtins =
     \<lparr>hmac_sha256_hex = (\<lambda>key msg. ''hmac('' @ key @ '','' @ msg @ '')''),
      number_toString = (\<lambda>n. case n of
          Finite q \<Rightarrow> (if q < 0 then ''-'' else []) @ decimal (nat \<lfloor>\<bar>q\<bar>\<rfloor>)
        | NaN \<Rightarrow> ''NaN'' | PosInfinity \<Rightarrow> ''Infinity'' | NegInfinity \<Rightarrow> ''-Infinity''),
      typeError_message = ''Cannot convert object to primitive value'',
      nullish_read_message = (\<lambda>expression. ''Cannot read properties of null or undefined: '' @ expression)\<rparr>"

text \<open>A client, a payload of the gateway, a payment request and a reply, for the examples.\<close>

definition demo_client :: PayOS where
  "demo_client = \<lparr>clientId = ''client'', apiKey = ''api'', checksumKey = ''secret''\<rparr>"

definition demo_data :: jsval where
  "demo_data = JObj 2 [(''status'', JStr ''PAID''), (''orderCode'', JNum (Finite 123))]"

definition demo_payment :: jsval where
  "demo_payment =
     JObj 3 [(''orderCode'', JNum (Finite 123)), (''amount'', JNum (Finite 1000)),
      (''description'', JStr ''test''), (''returnUrl'', JStr ''https://x''),
      (''cancelUrl'', JStr ''https://y'')]"

definition demo_body :: "jsval \<Rightarrow> jsval \<Rightarrow> jsval \<Rightarrow> jsval" where
  "demo_body c m sg = JObj 1 [(''code'', c), (''desc'', m), (''data'', demo_data), (''signature'', sg)]"

definition demo_reply :: "jsval \<Rightarrow> jsval \<Rightarrow> jsval \<Rightarrow> response" where
  "demo_reply c m sg = \<lparr>status = 200, json = Return (demo_body c m sg)\<rparr>"

section \<open>Properties\<close>

lemma those_map_Some:
  "list_all (\<lambda>x. g x = Some (h x)) xs \<Longrightarrow> those (map g xs) = Some (map h xs)"
  by (induction xs) simp_all

lemma those_map_None_iff:
  "those (map g xs) = None \<longleftrightarrow> \<not> list_all (\<lambda>x. g x \<noteq> None) xs"
  by (induction xs) (auto split: option.splits)

lemma not_convertible_not_nullish: "\<not> convertible x \<Longrightarrow> x \<noteq> JNull \<and> x \<noteq> JUndefined"
  by auto

lemma ToString_None_iff: "ToString n2s v = None \<longleftrightarrow> \<not> convertible v"
proof (induction n2s v rule: ToString.induct)
  case (6 n2s a xs)
  have "((if x = JNull \<or> x = JUndefined then Some [] else ToString n2s x) \<noteq> None) = convertible x"
    if "x \<in> set xs" for x
  proof (cases "x = JNull \<or> x = JUndefined")
    case True
    then show ?thesis by auto
  next
    case False
    with 6 that show ?thesis by simp
  qed
  then have "list_all (\<lambda>x. (if x = JNull \<or> x = JUndefined then Some [] else ToString n2s x) \<noteq> None) xs
        = list_all convertible xs"
    by (simp add: list_all_iff)
  then show ?case
    by (simp add: those_map_None_iff)
qed simp_all

lemma ToString_Some_iff: "(\<exists>s. ToString n2s v = Some s) \<longleftrightarrow> convertible v"
  using ToString_None_iff [of n2s v] by (cases "ToString n2s v") auto

lemma to_string_Return: "ToString (number_toString B) v = Some s \<Longrightarrow> to_string B v = Return s"
  by (simp add: to_string_def)

lemma to_string_Throw: "\<not> convertible v \<Longrightarrow> to_string B v = Throw (TypeError B)"
  using ToString_None_iff [of "number_toString B" v] by (simp add: to_string_def)

lemma objectToQueryString_Throw_iff:
  "objectToQueryString B ob = Throw (TypeError B)
     \<longleftrightarrow> \<not> list_all (\<lambda>key. convertible (get ob key)) (keys ob)"
proof -
  have "those (map (\<lambda>key. map_option (\<lambda>s. key @ ''='' @ s) (ToString (number_toString B) (get ob key)))
                (keys ob)) = None
        \<longleftrightarrow> \<not> list_all (\<lambda>key. convertible (get ob key)) (keys ob)"
    by (simp add: those_map_None_iff ToString_None_iff)
  then show ?thesis
    by (auto simp: objectToQueryString_def split: option.splits)
qed


lemma insert_prop_plain: "\<not> is_array_index k \<Longrightarrow> insert_prop k v ps = ps @ [(k, v)]"
  by (induction ps) auto

lemma assign_prop_plain:
  "plain_key k \<Longrightarrow> k \<notin> set (keys acc) \<Longrightarrow> assign_prop acc k v = acc @ [(k, v)]"
  by (simp add: assign_prop_def define_prop_def plain_key_def insert_prop_plain)

lemma foldl_assign_plain:
  "list_all plain_key ks \<Longrightarrow> distinct ks \<Longrightarrow> set ks \<inter> set (keys acc) = {} \<Longrightarrow>
   foldl (\<lambda>acc key. assign_prop acc key (f key)) acc ks = acc @ map (\<lambda>k. (k, f k)) ks"
proof (induction ks arbitrary: acc)
  case Nil
  then show ?case by simp
next
  case (Cons k ks)
  have step: "assign_prop acc k (f k) = acc @ [(k, f k)]"
    using Cons.prems by (intro assign_prop_plain) auto
  have "set ks \<inter> set (keys (acc @ [(k, f k)])) = {}"
    using Cons.prems by (auto simp: keys_def)
  with Cons show ?case
    by (simp add: step)
qed

lemma sortObjectByKey_plain:
  assumes "distinct (keys m)" "list_all plain_key (keys m)"
  shows "sortObjectByKey m = map (\<lambda>k. (k, get m k)) (sort (keys m))"
proof -
  have "list_all plain_key (sort (keys m))"
    using assms(2) by (simp add: list_all_iff)
  moreover have "distinct (sort (keys m))"
    using assms(1) by simp
  ultimately show ?thesis
    unfolding sortObjectByKey_def
    using foldl_assign_plain [of "sort (keys m)" "[]" "get m"] by (simp add: keys_def)
qed

lemma get_tabulate: "k \<in> set ks \<Longrightarrow> get (map (\<lambda>k. (k, f k)) ks) k = f k"
  by (induction ks) (auto simp: get_def)

lemma keys_tabulate: "keys (map (\<lambda>k. (k, f k)) ks) = ks"
  by (simp add: keys_def comp_def)

lemma objectToQueryString_tabulate:
  "objectToQueryString B (map (\<lambda>k. (k, f k)) ks)
     = (case those (map (\<lambda>k. map_option (\<lambda>s. k @ ''='' @ s) (ToString (number_toString B) (f k))) ks) of
          None \<Rightarrow> Throw (TypeError B)
        | Some pairs \<Rightarrow> Return (join ''&'' pairs))"
proof -
  have eq: "map (\<lambda>key. map_option (\<lambda>s. key @ ''='' @ s)
                  (ToString (number_toString B) (get (map (\<lambda>k. (k, f k)) ks) key))) ks
        = map (\<lambda>k. map_option (\<lambda>s. k @ ''='' @ s) (ToString (number_toString B) (f k))) ks"
    by (rule map_cong) (simp_all add: get_tabulate)
  show ?thesis
    unfolding objectToQueryString_def keys_tabulate eq by (rule refl)
qed

lemma get_cong_set:
  assumes "distinct (keys m)" "distinct (keys m')" "set m = set m'"
  shows "get m = get m'"
proof -
  have "map_of m = map_of m'"
    using assms by (simp add: keys_def map_of_inject_set)
  then show ?thesis
    by (auto simp: get_def fun_eq_iff)
qed

lemma sort_keys_cong_set:
  assumes "distinct (keys m)" "distinct (keys m')" "set m = set m'"
  shows "sort (keys m) = sort (keys m')"
proof -
  have "set (keys m) = set (keys m')"
    using assms(3) by (simp add: keys_def)
  then show ?thesis
    using assms(1,2) by (intro sorted_distinct_set_unique) simp_all
qed

lemma sortObjectByKey_cong_set:
  assumes "distinct (keys m)" "distinct (keys m')" "set m = set m'"
  shows "sortObjectByKey m = sortObjectByKey m'"
  unfolding sortObjectByKey_def
  using get_cong_set [OF assms] sort_keys_cong_set [OF assms] by simp

text \<open>
  Claim C5, as amended. For an object with distinct keys: when every key is a plain key, the
  canonical encoding \<open>objectToQueryString (sortObjectByKey m)\<close> lists the keys in ascending
  ordinal order with the values unchanged, each pair rendered as \<^verbatim>\<open>key=value\<close> and joined by
  \<^verbatim>\<open>&\<close> (when a value cannot be converted to a string, the encoding raises a TypeError
  instead); and for every object, two objects holding the same key-value pairs in any order
  have the same encoding.
\<close>

theorem canonical_encoding_sorted:
  assumes "distinct (keys m)"
  shows "(list_all plain_key (keys m) \<longrightarrow>
           keys (sortObjectByKey m) = sort (keys m)
           \<and> sorted (keys (sortObjectByKey m))
           \<and> (list_all (\<lambda>k. ToString (number_toString B) (get m k) = Some (r k)) (keys m) \<longrightarrow>
                objectToQueryString B (sortObjectByKey m)
                  = Return (join ''&'' (map (\<lambda>k. k @ ''='' @ r k) (sort (keys m)))))
           \<and> (\<not> list_all (\<lambda>k. convertible (get m k)) (keys m) \<longrightarrow>
                objectToQueryString B (sortObjectByKey m) = Throw (TypeError B)))
         \<and> (\<forall>m'. distinct (keys m') \<and> set m' = set m \<longrightarrow>
               objectToQueryString B (sortObjectByKey m') = objectToQueryString B (sortObjectByKey m))"
proof (intro conjI impI allI)
  assume plain: "list_all plain_key (keys m)"
  note tab = sortObjectByKey_plain [OF assms plain]
  show k: "keys (sortObjectByKey m) = sort (keys m)"
    by (simp add: tab keys_tabulate)
  show "sorted (keys (sortObjectByKey m))"
    by (simp add: k)
  show "objectToQueryString B (sortObjectByKey m)
          = Return (join ''&'' (map (\<lambda>k. k @ ''='' @ r k) (sort (keys m))))"
    if "list_all (\<lambda>k. ToString (number_toString B) (get m k) = Some (r k)) (keys m)"
  proof -
    from that have "list_all (\<lambda>k. map_option (\<lambda>s. k @ ''='' @ s) (ToString (number_toString B) (get m k))
                          = Some (k @ ''='' @ r k)) (sort (keys m))"
      by (simp add: list_all_iff)
    then have "those (map (\<lambda>k. map_option (\<lambda>s. k @ ''='' @ s) (ToString (number_toString B) (get m k)))
                      (sort (keys m)))
            = Some (map (\<lambda>k. k @ ''='' @ r k) (sort (keys m)))"
      by (rule those_map_Some)
    then show ?thesis
      by (simp add: tab objectToQueryString_tabulate)
  qed
  show "objectToQueryString B (sortObjectByKey m) = Throw (TypeError B)"
    if "\<not> list_all (\<lambda>k. convertible (get m k)) (keys m)"
  proof -
    from that obtain k0 where k0: "k0 \<in> set (keys m)" "\<not> convertible (get m k0)"
      by (auto simp: list_all_iff)
    then have "k0 \<in> set (keys (sortObjectByKey m))" "get (sortObjectByKey m) k0 = get m k0"
      by (simp_all add: k) (simp add: tab get_tabulate)
    with k0 have "\<not> list_all (\<lambda>key. convertible (get (sortObjectByKey m) key)) (keys (sortObjectByKey m))"
      by (auto simp: list_all_iff intro!: bexI [of _ k0])
    then show ?thesis
      by (simp add: objectToQueryString_Throw_iff)
  qed
next
  fix m' assume "distinct (keys m') \<and> set m' = set m"
  then show "objectToQueryString B (sortObjectByKey m') = objectToQueryString B (sortObjectByKey m)"
    using sortObjectByKey_cong_set [of m' m] assms by simp
qed

lemma ex_keys: "is_array_index ''10''" "is_array_index ''9''" "decimal_value ''10'' = 10" "decimal_value ''9'' = 9"
  "plain_key ''b''" "plain_key ''a''" "\<not> is_array_index ''a''" "\<not> is_array_index ''b''"
  by (simp_all add: is_array_index_def is_digit_def decimal_value_def plain_key_def)

theorem canonical_encoding_sorted_witness:
  "distinct (keys [(''b'', JStr ''x''), (''a'', JNull)])
   \<and> list_all plain_key (keys [(''b'', JStr ''x''), (''a'', JNull)])
   \<and> objectToQueryString demo_builtins
         (sortObjectByKey [(''b'', JStr ''x''), (''a'', JNull)]) = Return ''a=null&b=x''
   \<and> objectToQueryString demo_builtins
         (sortObjectByKey [(''a'', JNull), (''b'', JStr ''x'')]) = Return ''a=null&b=x''"
proof -
  let ?m = "[(''b'', JStr ''x''), (''a'', JNull)]"
  let ?r = "\<lambda>k. if k = ''a'' then ''null'' else ''x''"
  have d: "distinct (keys ?m)"
    by (simp add: keys_def)
  have p: "list_all plain_key (keys ?m)"
    by (simp add: keys_def ex_keys)
  have r: "list_all (\<lambda>k. ToString (number_toString demo_builtins) (get ?m k) = Some (?r k)) (keys ?m)"
    by (simp add: keys_def get_def)
  have d': "distinct (keys [(''a'', JNull), (''b'', JStr ''x'')])
            \<and> set [(''a'', JNull), (''b'', JStr ''x'')] = set ?m"
    by (auto simp add: keys_def)
  from canonical_encoding_sorted [OF d, of demo_builtins ?r] p r d' show ?thesis
    by (simp add: keys_def d)
qed

text \<open>
  Claim C5 as first stated (for every mapping) fails on array-index keys: the rebuilt
  object lists \<^verbatim>\<open>9\<close> before \<^verbatim>\<open>10\<close>, although \<^verbatim>\<open>10\<close> precedes \<^verbatim>\<open>9\<close> in
  ordinal order. It fails on the key \<^verbatim>\<open>__proto__\<close> too, which the rebuilt object does
  not get.
\<close>

theorem canonical_encoding_counterexample:
  "objectToQueryString demo_builtins
     (sortObjectByKey [(''9'', JStr ''b''), (''10'', JStr ''a'')]) = Return ''9=b&10=a''
   \<and> keys (sortObjectByKey [(''9'', JStr ''b''), (''10'', JStr ''a'')]) = [''9'', ''10'']
   \<and> sort (keys [(''9'', JStr ''b''), (''10'', JStr ''a'')]) = [''10'', ''9'']
   \<and> \<not> sorted (keys (sortObjectByKey [(''9'', JStr ''b''), (''10'', JStr ''a'')]))
   \<and> objectToQueryString demo_builtins
     (sortObjectByKey [(''a'', JStr ''x''), (''__proto__'', JStr ''y'')]) = Return ''a=x''"
  by (simp add: sortObjectByKey_def objectToQueryString_def keys_def assign_prop_def define_prop_def
      get_def ex_keys)

lemma get_member: "distinct (keys q) \<Longrightarrow> (k, v) \<in> set q \<Longrightarrow> get q k = v"
  by (simp add: get_def keys_def)

lemma truthy_get_member: "truthy (get p k) \<Longrightarrow> (k, get p k) \<in> set p"
  by (cases "map_of p k") (auto simp: get_def dest: map_of_SomeD)

lemma get_superset:
  assumes "distinct (keys q)" "set p \<subseteq> set q" "truthy (get p k)"
  shows "get q k = get p k"
  using assms truthy_get_member [of p k] get_member [of q k "get p k"] by auto

lemma then_do_to_string:
  "then_do (to_string B v) f
     = (if convertible v then f (the (ToString (number_toString B) v)) else Throw (TypeError B))"
  using ToString_None_iff [of "number_toString B" v]
  by (cases "ToString (number_toString B) v") (simp_all add: to_string_def then_do_def)

lemma paymentRequest_Return:
  assumes "truthy d" "key \<noteq> []"
    and "ToString (number_toString B) (get (own_properties d) ''amount'') = Some a"
    and "ToString (number_toString B) (get (own_properties d) ''cancelUrl'') = Some c"
    and "ToString (number_toString B) (get (own_properties d) ''description'') = Some t"
    and "ToString (number_toString B) (get (own_properties d) ''orderCode'') = Some oc"
    and "ToString (number_toString B) (get (own_properties d) ''returnUrl'') = Some u"
  shows "createSignatureOfPaymentRequest B d key =
           Return (Some (hmac_sha256_hex B key
             (''amount='' @ a @ ''&cancelUrl='' @ c @ ''&description='' @ t @
              ''&orderCode='' @ oc @ ''&returnUrl='' @ u)))"
  using assms
  by (simp add: createSignatureOfPaymentRequest_def to_string_def then_do_def)

lemma paymentRequest_Throw:
  assumes "truthy d" "key \<noteq> []"
    and "\<not> (convertible (get (own_properties d) ''amount'')
            \<and> convertible (get (own_properties d) ''cancelUrl'')
            \<and> convertible (get (own_properties d) ''description'')
            \<and> convertible (get (own_properties d) ''orderCode'')
            \<and> convertible (get (own_properties d) ''returnUrl''))"
  shows "createSignatureOfPaymentRequest B d key = Throw (TypeError B)"
  using assms unfolding createSignatureOfPaymentRequest_def Let_def then_do_to_string
  by auto

text \<open>
  Claim C4. For a payload \<open>p\<close> whose amount, cancelUrl, description, orderCode and returnUrl
  are truthy and a non-empty key, createSignatureOfPaymentRequest computes the digest of
  exactly \<^verbatim>\<open>amount=..&cancelUrl=..&description=..&orderCode=..&returnUrl=..\<close>, in that
  order, for every object \<open>q\<close> that holds the pairs of \<open>p\<close>: whatever the order of the keys
  of \<open>q\<close> and whatever further keys it has. The five values are rendered by the string
  conversion, which succeeds on every number and string; on a field whose conversion
  throws, the signer raises that TypeError.
\<close>

theorem paymentRequest_fixed_order:
  assumes "distinct (keys q)" and "set p \<subseteq> set q"
    and "truthy (get p ''amount'')" and "truthy (get p ''cancelUrl'')"
    and "truthy (get p ''description'')" and "truthy (get p ''orderCode'')"
    and "truthy (get p ''returnUrl'')"
    and "key \<noteq> []"
  shows "(ToString (number_toString B) (get p ''amount'') = Some a
          \<and> ToString (number_toString B) (get p ''cancelUrl'') = Some c
          \<and> ToString (number_toString B) (get p ''description'') = Some t
          \<and> ToString (number_toString B) (get p ''orderCode'') = Some oc
          \<and> ToString (number_toString B) (get p ''returnUrl'') = Some u \<longrightarrow>
          createSignatureOfPaymentRequest B (JObj ad q) key =
            Return (Some (hmac_sha256_hex B key
              (''amount='' @ a @ ''&cancelUrl='' @ c @ ''&description='' @ t @
               ''&orderCode='' @ oc @ ''&returnUrl='' @ u))))
       \<and> (\<not> (convertible (get p ''amount'') \<and> convertible (get p ''cancelUrl'')
              \<and> convertible (get p ''description'') \<and> convertible (get p ''orderCode'')
              \<and> convertible (get p ''returnUrl'')) \<longrightarrow>
          createSignatureOfPaymentRequest B (JObj ad q) key = Throw (TypeError B))"
proof -
  have eq: "get q ''amount'' = get p ''amount''" "get q ''cancelUrl'' = get p ''cancelUrl''"
    "get q ''description'' = get p ''description''" "get q ''orderCode'' = get p ''orderCode''"
    "get q ''returnUrl'' = get p ''returnUrl''"
    using assms by (simp_all add: get_superset)
  show ?thesis
    using paymentRequest_Return [of "JObj ad q" key B a c t oc u]
      paymentRequest_Throw [of "JObj ad q" key B] \<open>key \<noteq> []\<close>
    by (simp add: eq)
qed

lemma demo_numbers:
  "number_toString demo_builtins (Finite 1000) = ''1000''"
  "number_toString demo_builtins (Finite 123) = ''123''"
  by (simp_all add: demo_builtins_def decimal.simps digit_char_def)

lemma demo_hmac: "hmac_sha256_hex demo_builtins key msg = ''hmac('' @ key @ '','' @ msg @ '')''"
  by (simp add: demo_builtins_def)

theorem paymentRequest_fixed_order_witness:
  "createSignatureOfPaymentRequest demo_builtins
     (JObj 1 [(''returnUrl'', JStr ''https://x''), (''buyerName'', JStr ''An''),
            (''orderCode'', JNum (Finite 123)), (''description'', JStr ''test''),
            (''cancelUrl'', JStr ''https://y''), (''amount'', JNum (Finite 1000))]) ''secret''
   = Return (Some (hmac_sha256_hex demo_builtins ''secret''
       ''amount=1000&cancelUrl=https://y&description=test&orderCode=123&returnUrl=https://x''))
   \<and> createSignatureOfPaymentRequest demo_builtins
     (JObj 1 [(''returnUrl'', JStr ''https://x''),
            (''orderCode'', JNum (Finite 123)), (''description'', JObj 2 [(''toString'', JNull)]),
            (''cancelUrl'', JStr ''https://y''), (''amount'', JNum (Finite 1000))]) ''secret''
   = Throw (TypeError demo_builtins)"
proof -
  let ?p = "[(''amount'', JNum (Finite 1000)), (''description'', JStr ''test''),
             (''orderCode'', JNum (Finite 123)), (''returnUrl'', JStr ''https://x''),
             (''cancelUrl'', JStr ''https://y'')]"
  let ?q = "[(''returnUrl'', JStr ''https://x''), (''buyerName'', JStr ''An''),
             (''orderCode'', JNum (Finite 123)), (''description'', JStr ''test''),
             (''cancelUrl'', JStr ''https://y''), (''amount'', JNum (Finite 1000))]"
  let ?p' = "[(''returnUrl'', JStr ''https://x''),
            (''orderCode'', JNum (Finite 123)), (''description'', JObj 2 [(''toString'', JNull)]),
            (''cancelUrl'', JStr ''https://y''), (''amount'', JNum (Finite 1000))]"
  have 1: "distinct (keys ?q)" by (simp add: keys_def)
  have 2: "set ?p \<subseteq> set ?q" by simp
  have 3: "truthy (get ?p ''amount'')" "truthy (get ?p ''cancelUrl'')"
    "truthy (get ?p ''description'')" "truthy (get ?p ''orderCode'')"
    "truthy (get ?p ''returnUrl'')"
    by (simp_all add: get_def)
  have 4: "''secret'' \<noteq> []" by simp
  have a: "createSignatureOfPaymentRequest demo_builtins (JObj 1 ?q) ''secret''
    = Return (Some (hmac_sha256_hex demo_builtins ''secret''
       ''amount=1000&cancelUrl=https://y&description=test&orderCode=123&returnUrl=https://x''))"
    using paymentRequest_fixed_order [OF 1 2 3 4, of demo_builtins "''1000''" "''https://y''"
        "''test''" "''123''" "''https://x''" 1]
    by (simp add: get_def demo_numbers)
  have q1: "distinct (keys ?p')" by (simp add: keys_def)
  have q2: "set ?p' \<subseteq> set ?p'" by simp
  have q3: "truthy (get ?p' ''amount'')" "truthy (get ?p' ''cancelUrl'')"
    "truthy (get ?p' ''description'')" "truthy (get ?p' ''orderCode'')"
    "truthy (get ?p' ''returnUrl'')"
    by (simp_all add: get_def)
  have b: "createSignatureOfPaymentRequest demo_builtins (JObj 1 ?p') ''secret''
             = Throw (TypeError demo_builtins)"
    using paymentRequest_fixed_order [OF q1 q2 q3 4, of demo_builtins _ _ _ _ _ 1]
    by (simp add: get_def)
  from a b show ?thesis by blast
qed










lemmas control_defs = try_catch_def await_def then_do_def Let_def

lemma to_string_simps [simp]:
  "to_string B (JStr s) = Return s"
  "to_string B (JNum n) = Return (number_toString B n)"
  "to_string B JUndefined = Return ''undefined''"
  by (simp_all add: to_string_def)

lemma is_loosely_00_simps [simp]:
  "is_loosely_00 B (JStr s) = Return (s = ''00'')"
  "is_loosely_00 B (JNum n) = Return (n = Finite 0)"
  by (simp_all add: is_loosely_00_def)

lemma catch_generic_PayOSError:
  "catch_generic B (PayOSError c m) = Throw (Error (if m \<noteq> [] then m else ''Error''))"
  by (simp add: catch_generic_def errorData_of_def throw_new_Error_from_def)

lemma catch_generic_Error:
  "catch_generic B (Error m) = Throw (Error (if m \<noteq> [] then m else ''Error''))"
  by (simp add: catch_generic_def errorData_of_def throw_new_Error_from_def)

lemma new_PayOSError_JStr [simp]: "new_PayOSError B c (JStr m) = Return (PayOSError c m)"
  by (simp add: new_PayOSError_def then_do_def)

lemma valid_orderId:
  assumes "(orderId = JStr s \<and> s \<noteq> []) \<or> (orderId = JNum (Finite (of_int k)) \<and> 0 < k)"
  shows "\<not> (\<not> truthy orderId
         \<or> (typeof orderId = ''number'' \<and> (\<not> Number_isInteger orderId \<or> le_zero orderId))
         \<or> (typeof orderId = ''string'' \<and> string_length orderId = 0))"
    and "\<exists>t. to_string B orderId = Return t"
  using assms by auto

lemma empty_key_signs_null:
  "checksumKey this = [] \<Longrightarrow> createSignatureFromObject B d (checksumKey this) = Return None"
  "checksumKey this = [] \<Longrightarrow> createSignatureOfPaymentRequest B d (checksumKey this) = Return None"
  by (simp_all add: createSignatureFromObject_def createSignatureOfPaymentRequest_def)

lemma get_accepts:
  assumes "json resp = Return r" "\<not> nullish r" "truthy (read_prop r ''data'')"
    and "is_loosely_00 B (read_prop r ''code'') = Return True"
    and "createSignatureFromObject B (read_prop r ''data'') (checksumKey this) = Return sg"
    and "nullable sg = read_prop r ''signature''"
    and "(orderId = JStr s \<and> s \<noteq> []) \<or> (orderId = JNum (Finite (of_int k)) \<and> 0 < k)"
  shows "getPaymentLinkInformation B (\<lambda>req. Return resp) this orderId = Return (read_prop r ''data'')"
proof -
  from valid_orderId(2) [OF assms(7), of B] obtain t where t: "to_string B orderId = Return t"
    by blast
  show ?thesis
    unfolding getPaymentLinkInformation_def
    using valid_orderId(1) [OF assms(7)] assms(1-6) t
    by (simp add: control_defs)
qed

lemma cancel_accepts:
  assumes "json resp = Return r" "\<not> nullish r" "truthy (read_prop r ''data'')"
    and "is_loosely_00 B (read_prop r ''code'') = Return True"
    and "createSignatureFromObject B (read_prop r ''data'') (checksumKey this) = Return sg"
    and "nullable sg = read_prop r ''signature''"
    and "(orderId = JStr s \<and> s \<noteq> []) \<or> (orderId = JNum (Finite (of_int k)) \<and> 0 < k)"
  shows "cancelPaymentLink B (\<lambda>req. Return resp) this orderId reason = Return (read_prop r ''data'')"
proof -
  from valid_orderId(2) [OF assms(7), of B] obtain t where t: "to_string B orderId = Return t"
    by blast
  show ?thesis
    unfolding cancelPaymentLink_def
    using valid_orderId(1) [OF assms(7)] assms(1-6) t
    by (simp add: control_defs)
qed

lemma create_accepts:
  assumes "json resp = Return r" "\<not> nullish r" "truthy (read_prop r ''data'')"
    and "read_prop r ''code'' = JStr ''00''"
    and "createSignatureFromObject B (read_prop r ''data'') (checksumKey this) = Return sg"
    and "nullable sg = read_prop r ''signature''"
    and "truthy pd" "truthy (read_prop pd ''amount'')" "truthy (read_prop pd ''cancelUrl'')"
      "truthy (read_prop pd ''description'')" "truthy (read_prop pd ''orderCode'')"
      "truthy (read_prop pd ''returnUrl'')"
    and "createSignatureOfPaymentRequest B pd (checksumKey this) = Return rs"
  shows "createPaymentLink B (\<lambda>req. Return resp) this pd = Return (read_prop r ''data'')"
  unfolding createPaymentLink_def using assms
  by (simp add: control_defs)

text \<open>
  Claim C1 does not hold of the code, in two ways. First, when the client's checksum key is
  the empty string, createSignatureFromObject returns null; a reply with code \<^verbatim>\<open>00\<close>
  whose signature field is null then passes the comparison \<^verbatim>\<open>null !== null\<close>, and each of
  createPaymentLink, getPaymentLinkInformation and cancelPaymentLink returns its data, which
  no signature covers. Second, getPaymentLinkInformation and cancelPaymentLink compare the
  code with \<^verbatim>\<open>==\<close>: a correctly signed reply whose code is the number 0, not the string
  \<^verbatim>\<open>00\<close>, is accepted and its data returned.
\<close>

theorem data_released_unverified:
  assumes "json resp = Return r" and "\<not> nullish r" and "truthy (read_prop r ''data'')"
  shows "(checksumKey this = [] \<and> read_prop r ''code'' = JStr ''00''
          \<and> read_prop r ''signature'' = JNull \<longrightarrow>
            (truthy pd \<and> truthy (read_prop pd ''amount'') \<and> truthy (read_prop pd ''cancelUrl'')
             \<and> truthy (read_prop pd ''description'') \<and> truthy (read_prop pd ''orderCode'')
             \<and> truthy (read_prop pd ''returnUrl'') \<longrightarrow>
               createPaymentLink B (\<lambda>req. Return resp) this pd = Return (read_prop r ''data''))
            \<and> ((orderId = JStr s \<and> s \<noteq> []) \<or> (orderId = JNum (Finite (of_int k)) \<and> 0 < k) \<longrightarrow>
               getPaymentLinkInformation B (\<lambda>req. Return resp) this orderId = Return (read_prop r ''data'')
               \<and> cancelPaymentLink B (\<lambda>req. Return resp) this orderId reason
                    = Return (read_prop r ''data'')))
       \<and> (read_prop r ''code'' = JNum (Finite 0)
          \<and> createSignatureFromObject B (read_prop r ''data'') (checksumKey this) = Return sg
          \<and> nullable sg = read_prop r ''signature''
          \<and> ((orderId = JStr s \<and> s \<noteq> []) \<or> (orderId = JNum (Finite (of_int k)) \<and> 0 < k)) \<longrightarrow>
            getPaymentLinkInformation B (\<lambda>req. Return resp) this orderId = Return (read_prop r ''data'')
            \<and> cancelPaymentLink B (\<lambda>req. Return resp) this orderId reason
                 = Return (read_prop r ''data''))"
proof (intro conjI impI)
  assume e: "checksumKey this = [] \<and> read_prop r ''code'' = JStr ''00''
          \<and> read_prop r ''signature'' = JNull"
  then have sig: "createSignatureFromObject B (read_prop r ''data'') (checksumKey this) = Return None"
    "createSignatureOfPaymentRequest B pd (checksumKey this) = Return None"
    "nullable None = read_prop r ''signature''"
    "is_loosely_00 B (read_prop r ''code'') = Return True"
    using empty_key_signs_null(1) [of this B "read_prop r ''data''"]
      empty_key_signs_null(2) [of this B pd]
    by (auto simp add: nullable_def)
  show "createPaymentLink B (\<lambda>req. Return resp) this pd = Return (read_prop r ''data'')"
    if "truthy pd \<and> truthy (read_prop pd ''amount'') \<and> truthy (read_prop pd ''cancelUrl'')
             \<and> truthy (read_prop pd ''description'') \<and> truthy (read_prop pd ''orderCode'')
             \<and> truthy (read_prop pd ''returnUrl'')"
    using create_accepts [OF assms _ sig(1,3) _ _ _ _ _ _ sig(2)] e that by blast
  show "getPaymentLinkInformation B (\<lambda>req. Return resp) this orderId = Return (read_prop r ''data'')"
    if "(orderId = JStr s \<and> s \<noteq> []) \<or> (orderId = JNum (Finite (of_int k)) \<and> 0 < k)"
    using get_accepts [OF assms sig(4,1,3) that] .
  show "cancelPaymentLink B (\<lambda>req. Return resp) this orderId reason = Return (read_prop r ''data'')"
    if "(orderId = JStr s \<and> s \<noteq> []) \<or> (orderId = JNum (Finite (of_int k)) \<and> 0 < k)"
    using cancel_accepts [OF assms sig(4,1,3) that] .
next
  assume z: "read_prop r ''code'' = JNum (Finite 0)
          \<and> createSignatureFromObject B (read_prop r ''data'') (checksumKey this) = Return sg
          \<and> nullable sg = read_prop r ''signature''
          \<and> ((orderId = JStr s \<and> s \<noteq> []) \<or> (orderId = JNum (Finite (of_int k)) \<and> 0 < k))"
  then have l: "is_loosely_00 B (read_prop r ''code'') = Return True"
    by simp
  from z show "getPaymentLinkInformation B (\<lambda>req. Return resp) this orderId = Return (read_prop r ''data'')"
    using get_accepts [OF assms l, of this sg orderId s k] by blast
  from z show "cancelPaymentLink B (\<lambda>req. Return resp) this orderId reason = Return (read_prop r ''data'')"
    using cancel_accepts [OF assms l, of this sg orderId s k reason] by blast
qed

lemma demo_keys_plain:
  "\<not> is_array_index ''status''" "\<not> is_array_index ''orderCode''"
  by (simp_all add: is_array_index_def is_digit_def)

lemma demo_data_signature:
  "createSignatureFromObject demo_builtins demo_data ''secret''
     = Return (Some ''hmac(secret,orderCode=123&status=PAID)'')"
  by (simp add: createSignatureFromObject_def demo_data_def sortObjectByKey_def
      objectToQueryString_def keys_def assign_prop_def define_prop_def get_def
      demo_keys_plain demo_numbers demo_hmac then_do_def)

lemma demo_body_fields:
  "read_prop (demo_body c m sg) ''code'' = c" "read_prop (demo_body c m sg) ''desc'' = m"
  "read_prop (demo_body c m sg) ''data'' = demo_data" "read_prop (demo_body c m sg) ''signature'' = sg"
  "\<not> nullish (demo_body c m sg)" "json (demo_reply c m sg) = Return (demo_body c m sg)"
  "truthy demo_data"
  by (simp_all add: demo_body_def demo_reply_def read_prop_def get_def nullish_def demo_data_def)

lemma demo_payment_truthy:
  "truthy demo_payment"
  "truthy (read_prop demo_payment ''amount'')" "truthy (read_prop demo_payment ''cancelUrl'')"
  "truthy (read_prop demo_payment ''description'')" "truthy (read_prop demo_payment ''orderCode'')"
  "truthy (read_prop demo_payment ''returnUrl'')" "\<not> nullish demo_payment"
  by (simp_all add: demo_payment_def read_prop_def get_def nullish_def)

lemma demo_payment_signature:
  "createSignatureOfPaymentRequest demo_builtins demo_payment ''secret''
     = Return (Some ''hmac(secret,amount=1000&cancelUrl=https://y&description=test&orderCode=123&returnUrl=https://x)'')"
  by (simp add: createSignatureOfPaymentRequest_def demo_payment_def get_def then_do_def
      demo_numbers demo_hmac)

theorem data_released_unverified_witness:
  "createPaymentLink demo_builtins (\<lambda>req. Return (demo_reply (JStr ''00'') (JStr ''success'') JNull))
     (demo_client\<lparr>checksumKey := []\<rparr>) demo_payment = Return demo_data
   \<and> getPaymentLinkInformation demo_builtins
       (\<lambda>req. Return (demo_reply (JStr ''00'') (JStr ''success'') JNull))
       (demo_client\<lparr>checksumKey := []\<rparr>) (JStr ''42'') = Return demo_data
   \<and> cancelPaymentLink demo_builtins
       (\<lambda>req. Return (demo_reply (JStr ''00'') (JStr ''success'') JNull))
       (demo_client\<lparr>checksumKey := []\<rparr>) (JStr ''42'') None = Return demo_data
   \<and> getPaymentLinkInformation demo_builtins
       (\<lambda>req. Return (demo_reply (JNum (Finite 0)) (JStr ''failed'')
                        (JStr ''hmac(secret,orderCode=123&status=PAID)'')))
       demo_client (JStr ''42'') = Return demo_data
   \<and> cancelPaymentLink demo_builtins
       (\<lambda>req. Return (demo_reply (JNum (Finite 0)) (JStr ''failed'')
                        (JStr ''hmac(secret,orderCode=123&status=PAID)'')))
       demo_client (JStr ''42'') None = Return demo_data"
proof -
  let ?r1 = "demo_body (JStr ''00'') (JStr ''success'') JNull"
  let ?r2 = "demo_body (JNum (Finite 0)) (JStr ''failed'') (JStr ''hmac(secret,orderCode=123&status=PAID)'')"
  have key: "checksumKey demo_client = ''secret''" "checksumKey (demo_client\<lparr>checksumKey := []\<rparr>) = []"
    by (simp_all add: demo_client_def)
  have d1: "truthy (read_prop ?r1 ''data'')" and d2: "truthy (read_prop ?r2 ''data'')"
    by (simp_all add: demo_body_fields)
  note a = data_released_unverified [OF demo_body_fields(6) demo_body_fields(5) d1,
      of "demo_client\<lparr>checksumKey := []\<rparr>" demo_payment demo_builtins "JStr ''42''" "''42''" 1 None None]
  note b = data_released_unverified [OF demo_body_fields(6) demo_body_fields(5) d2,
      of demo_client demo_payment demo_builtins "JStr ''42''" "''42''" 1 None
        "Some ''hmac(secret,orderCode=123&status=PAID)''"]
  from a b show ?thesis
    by (simp add: demo_body_fields demo_payment_truthy key demo_data_signature nullable_def)
qed

text \<open>
  Claim C2 does not hold of the code. For a parsed reply whose code is not \<^verbatim>\<open>00\<close> the
  three operations construct \<^verbatim>\<open>new PayOSError({code, message: desc})\<close> inside their own
  \<^verbatim>\<open>try\<close>; the catch clause takes it and raises \<^verbatim>\<open>new Error(message)\<close> instead. What
  reaches the caller is a plain \<^verbatim>\<open>Error\<close> with the reply's desc (or the text
  \<^verbatim>\<open>Error\<close> when desc is empty): the reply's code is lost.
\<close>

theorem gateway_error_code_dropped:
  assumes "json resp = Return r" and "\<not> nullish r" and "read_prop r ''desc'' = JStr m"
  shows "(read_prop r ''code'' \<noteq> JStr ''00''
          \<and> truthy pd \<and> truthy (read_prop pd ''amount'') \<and> truthy (read_prop pd ''cancelUrl'')
          \<and> truthy (read_prop pd ''description'') \<and> truthy (read_prop pd ''orderCode'')
          \<and> truthy (read_prop pd ''returnUrl'')
          \<and> createSignatureOfPaymentRequest B pd (checksumKey this) = Return rs \<longrightarrow>
            createPaymentLink B (\<lambda>req. Return resp) this pd
              = Throw (Error (if m \<noteq> [] then m else ''Error'')))
       \<and> (is_loosely_00 B (read_prop r ''code'') = Return False
          \<and> ((orderId = JStr s \<and> s \<noteq> []) \<or> (orderId = JNum (Finite (of_int k)) \<and> 0 < k)) \<longrightarrow>
            getPaymentLinkInformation B (\<lambda>req. Return resp) this orderId
              = Throw (Error (if m \<noteq> [] then m else ''Error''))
            \<and> cancelPaymentLink B (\<lambda>req. Return resp) this orderId reason
              = Throw (Error (if m \<noteq> [] then m else ''Error'')))"
proof (intro conjI impI)
  assume "read_prop r ''code'' \<noteq> JStr ''00''
          \<and> truthy pd \<and> truthy (read_prop pd ''amount'') \<and> truthy (read_prop pd ''cancelUrl'')
          \<and> truthy (read_prop pd ''description'') \<and> truthy (read_prop pd ''orderCode'')
          \<and> truthy (read_prop pd ''returnUrl'')
          \<and> createSignatureOfPaymentRequest B pd (checksumKey this) = Return rs"
  then show "createPaymentLink B (\<lambda>req. Return resp) this pd
              = Throw (Error (if m \<noteq> [] then m else ''Error''))"
    unfolding createPaymentLink_def using assms
    by (simp add: control_defs catch_generic_PayOSError)
next
  assume v: "is_loosely_00 B (read_prop r ''code'') = Return False
          \<and> ((orderId = JStr s \<and> s \<noteq> []) \<or> (orderId = JNum (Finite (of_int k)) \<and> 0 < k))"
  then obtain t where t: "to_string B orderId = Return t"
    using valid_orderId(2) [of orderId s k B] by blast
  from v have ok: "\<not> (\<not> truthy orderId
         \<or> (typeof orderId = ''number'' \<and> (\<not> Number_isInteger orderId \<or> le_zero orderId))
         \<or> (typeof orderId = ''string'' \<and> string_length orderId = 0))"
    using valid_orderId(1) [of orderId s k] by blast
  show "getPaymentLinkInformation B (\<lambda>req. Return resp) this orderId
              = Throw (Error (if m \<noteq> [] then m else ''Error''))"
    unfolding getPaymentLinkInformation_def using assms ok t v
    by (auto simp add: control_defs catch_generic_PayOSError)
  show "cancelPaymentLink B (\<lambda>req. Return resp) this orderId reason
              = Throw (Error (if m \<noteq> [] then m else ''Error''))"
    unfolding cancelPaymentLink_def using assms ok t v
    by (auto simp add: control_defs catch_generic_PayOSError)
qed

theorem gateway_error_code_dropped_witness:
  "createPaymentLink demo_builtins
     (\<lambda>req. Return (demo_reply (JStr ''01'') (JStr ''Invalid parameter'')
                       (JStr ''hmac(secret,orderCode=123&status=PAID)'')))
     demo_client demo_payment = Throw (Error ''Invalid parameter'')
   \<and> getPaymentLinkInformation demo_builtins
     (\<lambda>req. Return (demo_reply (JStr ''01'') (JStr ''Invalid parameter'')
                       (JStr ''hmac(secret,orderCode=123&status=PAID)'')))
     demo_client (JStr ''42'') = Throw (Error ''Invalid parameter'')
   \<and> cancelPaymentLink demo_builtins
     (\<lambda>req. Return (demo_reply (JStr ''01'') (JStr ''Invalid parameter'')
                       (JStr ''hmac(secret,orderCode=123&status=PAID)'')))
     demo_client (JStr ''42'') None = Throw (Error ''Invalid parameter'')"
proof -
  have key: "checksumKey demo_client = ''secret''" by (simp add: demo_client_def)
  let ?r = "demo_body (JStr ''01'') (JStr ''Invalid parameter'')
              (JStr ''hmac(secret,orderCode=123&status=PAID)'')"
  have j: "json (demo_reply (JStr ''01'') (JStr ''Invalid parameter'')
              (JStr ''hmac(secret,orderCode=123&status=PAID)'')) = Return ?r"
    and n: "\<not> nullish ?r" and d: "read_prop ?r ''desc'' = JStr ''Invalid parameter''"
    by (simp_all add: demo_body_fields)
  from gateway_error_code_dropped [OF j n d, of demo_payment demo_builtins
        demo_client _ "JStr ''42''" "''42''" 1 None]
  show ?thesis
    by (simp add: demo_body_fields demo_payment_truthy key demo_payment_signature)
qed

text \<open>
  Claim C3 does not hold of the code. \<^verbatim>\<open>fetch\<close> resolves for every HTTP response, so
  for a non-empty URL confirmWebhook returns the URL whatever the status of the response
  is, 400, 401 and 5xx included. The mapping of a status to WEBHOOK_URL_INVALID is in
  the catch clause, which only a rejection of \<^verbatim>\<open>fetch\<close> that carries a \<^verbatim>\<open>status\<close>
  reaches.
\<close>

theorem confirmWebhook_ignores_http_status:
  "webhookUrl \<noteq> [] \<longrightarrow>
     confirmWebhook B (\<lambda>req. Return resp) this webhookUrl = Return webhookUrl
     \<and> confirmWebhook B (\<lambda>req. Throw (Thrown (JObj a [(''status'', JNum (Finite 400))]))) this webhookUrl
         = Throw (PayOSError (JStr ERROR_CODE_INTERNAL_SERVER_ERROR) ERROR_MESSAGE_WEBHOOK_URL_INVALID)"
  by (simp add: confirmWebhook_def control_defs errorData_of_def
      status_of_def read_prop_def get_def)

theorem confirmWebhook_ignores_http_status_witness:
  "confirmWebhook demo_builtins (\<lambda>req. Return \<lparr>status = 400, json = Throw (NativeError ''SyntaxError'' ''Unexpected end of JSON input'')\<rparr>)
     demo_client ''https://merchant.example/hook'' = Return ''https://merchant.example/hook''
   \<and> confirmWebhook demo_builtins
        (\<lambda>req. Return (demo_reply (JStr ''00'') (JStr ''success'') JNull\<lparr>status := 401\<rparr>))
        demo_client ''https://merchant.example/hook'' = Return ''https://merchant.example/hook''
   \<and> confirmWebhook demo_builtins
        (\<lambda>req. Return (demo_reply (JStr ''00'') (JStr ''success'') JNull\<lparr>status := 500\<rparr>))
        demo_client ''https://merchant.example/hook'' = Return ''https://merchant.example/hook''"
  using confirmWebhook_ignores_http_status [of "''https://merchant.example/hook''" demo_builtins
      "\<lparr>status = 400, json = Throw (NativeError ''SyntaxError'' ''Unexpected end of JSON input'')\<rparr>" demo_client]
    confirmWebhook_ignores_http_status [of "''https://merchant.example/hook''" demo_builtins
      "demo_reply (JStr ''00'') (JStr ''success'') JNull\<lparr>status := 401\<rparr>" demo_client]
    confirmWebhook_ignores_http_status [of "''https://merchant.example/hook''" demo_builtins
      "demo_reply (JStr ''00'') (JStr ''success'') JNull\<lparr>status := 500\<rparr>" demo_client]
  by simp


lemma demo_data_signable: "signable demo_data"
  by (simp add: signable_def demo_data_def sortObjectByKey_def keys_def assign_prop_def
      define_prop_def get_def demo_keys_plain)



text \<open>
  Claim C8. getPaymentLinkInformation and cancelPaymentLink validate orderId alike and before
  the transport is used: NaN, an infinity, a number that is zero, negative or not an
  integer, and the empty string raise \<^verbatim>\<open>Invalid Parameter.\<close> whatever \<^verbatim>\<open>fetch\<close>
  would answer; a positive integer and a non-empty string pass, and the operation goes on
  to the gateway, whose correctly signed reply it returns.
\<close>

theorem orderId_validation:
  "(orderId = JNum NaN \<or> orderId = JNum PosInfinity \<or> orderId = JNum NegInfinity
     \<or> (orderId = JNum (Finite q) \<and> (q \<le> 0 \<or> of_int \<lfloor>q\<rfloor> \<noteq> q))
     \<or> orderId = JStr [] \<longrightarrow>
       getPaymentLinkInformation B fetch this orderId = Throw (Error ''Invalid Parameter.'')
       \<and> cancelPaymentLink B fetch this orderId reason = Throw (Error ''Invalid Parameter.''))
   \<and> (((orderId = JStr s \<and> s \<noteq> []) \<or> (orderId = JNum (Finite (of_int k)) \<and> 0 < k))
       \<and> json resp = Return r \<and> read_prop r ''code'' = JStr ''00'' \<and> truthy (read_prop r ''data'')
       \<and> createSignatureFromObject B (read_prop r ''data'') (checksumKey this) = Return (Some sg)
       \<and> read_prop r ''signature'' = JStr sg \<longrightarrow>
       getPaymentLinkInformation B (\<lambda>req. Return resp) this orderId = Return (read_prop r ''data'')
       \<and> cancelPaymentLink B (\<lambda>req. Return resp) this orderId reason = Return (read_prop r ''data''))"
proof (intro conjI impI)
  assume bad: "orderId = JNum NaN \<or> orderId = JNum PosInfinity \<or> orderId = JNum NegInfinity
     \<or> (orderId = JNum (Finite q) \<and> (q \<le> 0 \<or> of_int \<lfloor>q\<rfloor> \<noteq> q))
     \<or> orderId = JStr []"
  then have c: "\<not> truthy orderId
         \<or> (typeof orderId = ''number'' \<and> (\<not> Number_isInteger orderId \<or> le_zero orderId))
         \<or> (typeof orderId = ''string'' \<and> string_length orderId = 0)"
    by auto
  show "getPaymentLinkInformation B fetch this orderId = Throw (Error ''Invalid Parameter.'')"
    unfolding getPaymentLinkInformation_def using c
    by (simp only: if_True ERROR_MESSAGE_INVALID_PARAMETER_def)
  show "cancelPaymentLink B fetch this orderId reason = Throw (Error ''Invalid Parameter.'')"
    unfolding cancelPaymentLink_def using c
    by (simp only: if_True ERROR_MESSAGE_INVALID_PARAMETER_def)
next
  assume ok: "((orderId = JStr s \<and> s \<noteq> []) \<or> (orderId = JNum (Finite (of_int k)) \<and> 0 < k))
       \<and> json resp = Return r \<and> read_prop r ''code'' = JStr ''00'' \<and> truthy (read_prop r ''data'')
       \<and> createSignatureFromObject B (read_prop r ''data'') (checksumKey this) = Return (Some sg)
       \<and> read_prop r ''signature'' = JStr sg"
  then have n: "\<not> nullish r"
    by (auto simp add: nullish_def read_prop_def get_def)
  from ok have l: "is_loosely_00 B (read_prop r ''code'') = Return True"
    and g: "nullable (Some sg) = read_prop r ''signature''"
    by (simp_all add: nullable_def)
  from ok show "getPaymentLinkInformation B (\<lambda>req. Return resp) this orderId = Return (read_prop r ''data'')"
    using get_accepts [of resp r B this "Some sg" orderId s k] n l g by blast
  from ok show "cancelPaymentLink B (\<lambda>req. Return resp) this orderId reason = Return (read_prop r ''data'')"
    using cancel_accepts [of resp r B this "Some sg" orderId s k reason] n l g by blast
qed

theorem orderId_validation_witness:
  "getPaymentLinkInformation demo_builtins (\<lambda>req. Throw (Error ''unreachable'')) demo_client (JNum (Finite 0))
     = Throw (Error ''Invalid Parameter.'')
   \<and> cancelPaymentLink demo_builtins (\<lambda>req. Throw (Error ''unreachable'')) demo_client (JNum (Finite (5 / 2))) None
     = Throw (Error ''Invalid Parameter.'')
   \<and> getPaymentLinkInformation demo_builtins (\<lambda>req. Throw (Error ''unreachable'')) demo_client (JStr [])
     = Throw (Error ''Invalid Parameter.'')
   \<and> getPaymentLinkInformation demo_builtins
        (\<lambda>req. Return (demo_reply (JStr ''00'') (JStr ''success'')
                         (JStr ''hmac(secret,orderCode=123&status=PAID)'')))
        demo_client (JNum (Finite 42)) = Return demo_data
   \<and> cancelPaymentLink demo_builtins
        (\<lambda>req. Return (demo_reply (JStr ''00'') (JStr ''success'')
                         (JStr ''hmac(secret,orderCode=123&status=PAID)'')))
        demo_client (JStr ''42'') (Some ''changed my mind'') = Return demo_data"
proof -
  let ?r = "demo_body (JStr ''00'') (JStr ''success'') (JStr ''hmac(secret,orderCode=123&status=PAID)'')"
  let ?resp = "demo_reply (JStr ''00'') (JStr ''success'') (JStr ''hmac(secret,orderCode=123&status=PAID)'')"
  let ?none = "\<lambda>req :: request. (Throw (Error ''unreachable'') :: response outcome)"
  have key: "checksumKey demo_client = ''secret''" by (simp add: demo_client_def)
  have "\<lfloor>5 / 2 :: rat\<rfloor> = 2" by (rule floor_unique) simp_all
  then have half: "of_int \<lfloor>5 / 2 :: rat\<rfloor> \<noteq> (5 / 2 :: rat)" by simp
  have a: "getPaymentLinkInformation demo_builtins ?none demo_client (JNum (Finite 0))
             = Throw (Error ''Invalid Parameter.'')"
    using orderId_validation [of "JNum (Finite 0)" 0 demo_builtins ?none demo_client None] by simp
  have b: "cancelPaymentLink demo_builtins ?none demo_client (JNum (Finite (5 / 2))) None
             = Throw (Error ''Invalid Parameter.'')"
    using orderId_validation [of "JNum (Finite (5 / 2))" "5 / 2" demo_builtins ?none demo_client None] half
    by blast
  have c: "getPaymentLinkInformation demo_builtins ?none demo_client (JStr [])
             = Throw (Error ''Invalid Parameter.'')"
    using orderId_validation [of "JStr []" 0 demo_builtins ?none demo_client None] by simp
  have ok: "json ?resp = Return ?r \<and> read_prop ?r ''code'' = JStr ''00'' \<and> truthy (read_prop ?r ''data'')
       \<and> createSignatureFromObject demo_builtins (read_prop ?r ''data'') (checksumKey demo_client)
            = Return (Some ''hmac(secret,orderCode=123&status=PAID)'')
       \<and> read_prop ?r ''signature'' = JStr ''hmac(secret,orderCode=123&status=PAID)''"
    by (simp add: key demo_data_signature demo_body_fields)
  have rd: "read_prop ?r ''data'' = demo_data" by (simp add: demo_body_fields)
  have "JNum (Finite 42) = JNum (Finite (of_int 42)) \<and> (0::int) < 42" by simp
  then have d: "getPaymentLinkInformation demo_builtins (\<lambda>req. Return ?resp) demo_client (JNum (Finite 42))
             = Return demo_data"
    using orderId_validation [of "JNum (Finite 42)" 0 demo_builtins _ demo_client None
        "[]" 42 ?resp ?r "''hmac(secret,orderCode=123&status=PAID)''"] ok rd
    by metis
  have e: "cancelPaymentLink demo_builtins (\<lambda>req. Return ?resp) demo_client (JStr ''42'')
             (Some ''changed my mind'') = Return demo_data"
    using orderId_validation [of "JStr ''42''" 0 demo_builtins _ demo_client "Some ''changed my mind''"
        "''42''" 1 ?resp ?r "''hmac(secret,orderCode=123&status=PAID)''"] ok rd
    by simp
  from a b c d e show ?thesis by blast
qed

text \<open>
  Claim C9. When one of amount, cancelUrl, description, orderCode, returnUrl is absent or
  falsy in the payload, createPaymentLink raises, whatever the signer and the transport
  are, the error whose message lists exactly the required fields that are absent or
  falsy, in the order of the list of required fields.
\<close>

theorem createPaymentLink_required_fields:
  "\<not> nullish pd
   \<and> filter (\<lambda>key. \<not> truthy (read_prop pd key))
      [''amount'', ''cancelUrl'', ''description'', ''orderCode'', ''returnUrl''] \<noteq> [] \<longrightarrow>
   createPaymentLink B fetch this pd =
     Throw (Error (''The following fields are required: '' @
       join '', '' (filter (\<lambda>key. \<not> truthy (read_prop pd key))
                      [''amount'', ''cancelUrl'', ''description'', ''orderCode'', ''returnUrl''])))"
proof
  assume a: "\<not> nullish pd
   \<and> filter (\<lambda>key. \<not> truthy (read_prop pd key))
      [''amount'', ''cancelUrl'', ''description'', ''orderCode'', ''returnUrl''] \<noteq> []"
  then have "\<not> truthy pd \<or> \<not> truthy (read_prop pd ''amount'')
         \<or> \<not> truthy (read_prop pd ''cancelUrl'') \<or> \<not> truthy (read_prop pd ''description'')
         \<or> \<not> truthy (read_prop pd ''orderCode'') \<or> \<not> truthy (read_prop pd ''returnUrl'')"
    by (auto split: if_splits)
  moreover from a have "nullish pd = False" by simp
  ultimately show "createPaymentLink B fetch this pd =
     Throw (Error (''The following fields are required: '' @
       join '', '' (filter (\<lambda>key. \<not> truthy (read_prop pd key))
                      [''amount'', ''cancelUrl'', ''description'', ''orderCode'', ''returnUrl''])))"
    unfolding createPaymentLink_def by (simp only: if_True if_False Let_def)
qed

theorem createPaymentLink_required_fields_witness:
  "createPaymentLink demo_builtins (\<lambda>req. Throw (Error ''unreachable'')) demo_client
     (JObj 1 [(''amount'', JNum (Finite 1000)), (''description'', JStr ''test''),
      (''returnUrl'', JStr ''https://x''), (''cancelUrl'', JStr ''https://y'')])
     = Throw (Error ''The following fields are required: orderCode'')
   \<and> createPaymentLink demo_builtins (\<lambda>req. Throw (Error ''unreachable'')) demo_client
     (JObj 1 [(''amount'', JNum (Finite 0)), (''description'', JStr ''test''), (''orderCode'', JNum (Finite 123)),
      (''returnUrl'', JStr []), (''cancelUrl'', JStr ''https://y'')])
     = Throw (Error ''The following fields are required: amount, returnUrl'')"
  using createPaymentLink_required_fields [of
      "JObj 1 [(''amount'', JNum (Finite 1000)), (''description'', JStr ''test''),
        (''returnUrl'', JStr ''https://x''), (''cancelUrl'', JStr ''https://y'')]"
      demo_builtins "\<lambda>req. Throw (Error ''unreachable'')" demo_client]
    createPaymentLink_required_fields [of
      "JObj 1 [(''amount'', JNum (Finite 0)), (''description'', JStr ''test''), (''orderCode'', JNum (Finite 123)),
        (''returnUrl'', JStr []), (''cancelUrl'', JStr ''https://y'')]"
      demo_builtins "\<lambda>req. Throw (Error ''unreachable'')" demo_client]
  by (simp add: read_prop_def get_def nullish_def)

text \<open>
  Claim C10 does not hold of the code. For a webhook body whose data is present and a client
  whose checksum key is the empty string, the recomputed signature is null, and
  verifyWebhookData raises the integrity error for every signature field but one: a body
  whose signature field is null passes the comparison \<^verbatim>\<open>null !== null\<close> and its data is
  returned, unverified. Such a webhook is not rejected.
\<close>

theorem empty_key_null_signature_accepted:
  "\<not> nullish wb \<and> truthy (read_prop wb ''data'') \<and> checksumKey this = [] \<longrightarrow>
     verifyWebhookData B this wb
       = (if read_prop wb ''signature'' = JNull then Return (read_prop wb ''data'')
          else Throw (Error
            ''The data is unreliable because the signature of the response does not match the signature of the data.''))"
  by (simp add: verifyWebhookData_def Let_def then_do_def createSignatureFromObject_def
      nullable_def ERROR_MESSAGE_DATA_NOT_INTEGRITY_def)

theorem empty_key_null_signature_accepted_witness:
  "verifyWebhookData demo_builtins (demo_client\<lparr>checksumKey := []\<rparr>)
      (demo_body (JStr ''00'') (JStr ''success'') JNull)
     = Return (JObj 2 [(''status'', JStr ''PAID''), (''orderCode'', JNum (Finite 123))])
   \<and> verifyWebhookData demo_builtins (demo_client\<lparr>checksumKey := []\<rparr>)
      (demo_body (JStr ''00'') (JStr ''success'') (JStr ''hmac(secret,orderCode=123&status=PAID)''))
     = Throw (Error
         ''The data is unreliable because the signature of the response does not match the signature of the data.'')"
  using empty_key_null_signature_accepted [of "demo_body (JStr ''00'') (JStr ''success'') JNull"
      "demo_client\<lparr>checksumKey := []\<rparr>" demo_builtins]
    empty_key_null_signature_accepted [of
      "demo_body (JStr ''00'') (JStr ''success'') (JStr ''hmac(secret,orderCode=123&status=PAID)'')"
      "demo_client\<lparr>checksumKey := []\<rparr>" demo_builtins]
  by (simp add: demo_body_fields demo_data_def [symmetric])

end
